theory Spec2Isabelle
  imports Main "HOL-Library.Word"
begin

unbundle bit_operations_syntax

section \<open>The platform under the vault\<close>

text \<open>
  The vault engine (src/storage/vault.js) and its cipher module (src/utils/crypto.js) run on
  Node.js and on the aes-js package. What they call there is not code of the repository. It
  enters the model in two ways.

  \<^item> Functions whose result the repository's code only passes on are fields of a record
    \<open>platform\<close>; every operation takes the platform as its first argument and every theorem
    holds for an arbitrary one: the AES block function, the PBKDF2 output stream, SHA-256,
    \<open>JSON.stringify\<close> and \<open>JSON.parse\<close> on vault documents, \<open>Date.prototype.toISOString\<close>
    and the \<open>Date\<close> constructor on strings.
  \<^item> Functions whose behaviour a claim depends on are written out: Buffer's base64 and hex
    encodings, the counter mode of aes-js, \<open>String.prototype.includes\<close> and
    \<open>toLowerCase\<close>.

  A byte is an \<open>8 word\<close>. A JavaScript string is modelled by its UTF-8 bytes, as an Isabelle
  \<open>string\<close>; the conversions \<open>aesjs.utils.utf8.toBytes\<close> and \<open>fromBytes\<close> are then the
  change of representation between \<open>char\<close> and \<open>8 word\<close>.

  \<open>crypto.randomBytes\<close> reads a tape of random bytes, \<open>new Date()\<close> a tape of clock readings
  (milliseconds since the epoch). Both tapes are part of the state, so that an operation is a
  function of its arguments and the state.
\<close>

type_synonym byte = "8 word"
type_synonym bytes = "byte list"
type_synonym tape = "nat \<Rightarrow> byte"

definition randomBytes :: "nat \<Rightarrow> tape \<Rightarrow> bytes \<times> tape" where
  "randomBytes n g = (map g [0..<n], \<lambda>i. g (i + n))"

definition utf8_toBytes :: "string \<Rightarrow> bytes" where
  "utf8_toBytes s = map (\<lambda>c. of_nat (of_char c)) s"

definition utf8_fromBytes :: "bytes \<Rightarrow> string" where
  "utf8_fromBytes bs = map (\<lambda>b. char_of (unat b)) bs"

subsection \<open>Buffer encodings\<close>

text \<open>
  \<open>buf.toString('base64')\<close>: three bytes give four characters of the alphabet
  \<open>A-Z a-z 0-9 + /\<close>, and a last group of one or two bytes is padded with \<open>=\<close>.
\<close>

definition b64_char :: "nat \<Rightarrow> char" where
  "b64_char n =
     (if n < 26 then char_of (65 + n)
      else if n < 52 then char_of (71 + n)
      else if n < 62 then char_of (n - 4)
      else if n = 62 then CHR ''+'' else CHR ''/'')"

fun to_sextets :: "nat list \<Rightarrow> nat list" where
  "to_sextets (a # b # c # rest) =
     a div 4 # (a mod 4 * 16 + b div 16) # (b mod 16 * 4 + c div 64) # c mod 64 # to_sextets rest"
| "to_sextets [a, b] = [a div 4, a mod 4 * 16 + b div 16, b mod 16 * 4]"
| "to_sextets [a] = [a div 4, a mod 4 * 16]"
| "to_sextets [] = []"

definition toString_base64 :: "bytes \<Rightarrow> string" where
  "toString_base64 bs =
     map b64_char (to_sextets (map unat bs)) @ replicate ((3 - length bs mod 3) mod 3) CHR ''=''"

text \<open>
  \<open>Buffer.from(s, 'base64')\<close> reads up to the first \<open>=\<close>, accepts the URL-safe characters
  \<open>-\<close> and \<open>_\<close> for \<open>+\<close> and \<open>/\<close>, and skips every other character outside the alphabet.
\<close>

definition b64_index :: "char \<Rightarrow> nat option" where
  "b64_index c =
     (let k = of_char c :: nat in
      if 65 \<le> k \<and> k \<le> 90 then Some (k - 65)
      else if 97 \<le> k \<and> k \<le> 122 then Some (k - 71)
      else if 48 \<le> k \<and> k \<le> 57 then Some (k + 4)
      else if k = 43 \<or> k = 45 then Some 62
      else if k = 47 \<or> k = 95 then Some 63
      else None)"

fun from_sextets :: "nat list \<Rightarrow> nat list" where
  "from_sextets (p # q # r # s # rest) =
     (p * 4 + q div 16) # (q mod 16 * 16 + r div 4) # (r mod 4 * 64 + s) # from_sextets rest"
| "from_sextets [p, q, r] = [p * 4 + q div 16, q mod 16 * 16 + r div 4]"
| "from_sextets [p, q] = [p * 4 + q div 16]"
| "from_sextets [p] = []"
| "from_sextets [] = []"

definition from_base64 :: "string \<Rightarrow> bytes" where
  "from_base64 s =
     map of_nat (from_sextets (List.map_filter b64_index (takeWhile (\<lambda>c. c \<noteq> CHR ''='') s)))"

text \<open>\<open>buf.toString('hex')\<close>: two lower-case digits a byte.\<close>

definition hex_digit :: "nat \<Rightarrow> char" where
  "hex_digit n = (if n < 10 then char_of (48 + n) else char_of (87 + n))"

definition toString_hex :: "bytes \<Rightarrow> string" where
  "toString_hex bs = concat (map (\<lambda>b. [hex_digit (unat b div 16), hex_digit (unat b mod 16)]) bs)"

text \<open>
  \<open>Buffer.from(s, 'hex')\<close>: pairs of hexadecimal digits, upper or lower case; decoding stops
  at the first pair that is not one, and a last single character is dropped.
\<close>

definition hex_value :: "char \<Rightarrow> nat option" where
  "hex_value c =
     (let k = of_char c :: nat in
      if 48 \<le> k \<and> k \<le> 57 then Some (k - 48)
      else if 97 \<le> k \<and> k \<le> 102 then Some (k - 87)
      else if 65 \<le> k \<and> k \<le> 70 then Some (k - 55)
      else None)"

fun from_hex :: "string \<Rightarrow> bytes" where
  "from_hex (h # l # rest) =
     (case (hex_value h, hex_value l) of
        (Some x, Some y) \<Rightarrow> of_nat (x * 16 + y) # from_hex rest
      | _ \<Rightarrow> [])"
| "from_hex _ = []"

subsection \<open>The counter mode of aes-js\<close>

text \<open>
  \<open>new aesjs.Counter(iv)\<close> throws unless \<open>iv\<close> has 16 bytes; \<open>increment\<close> adds one to the
  counter read as a big-endian number and wraps from all \<open>0xff\<close> to all zero.
  \<open>new aesjs.ModeOfOperation.ctr(key, counter)\<close> throws unless the key has 16, 24 or 32
  bytes. \<open>encrypt\<close> XORs the data with the key stream: the AES encryptions of the successive
  counter values, 16 bytes each; \<open>decrypt\<close> is the same function.
\<close>

fun increment_le :: "bytes \<Rightarrow> bytes" where
  "increment_le [] = []"
| "increment_le (x # xs) = (if x = 255 then 0 # increment_le xs else (x + 1) # xs)"

definition increment :: "bytes \<Rightarrow> bytes" where
  "increment c = rev (increment_le (rev c))"

definition block16 :: "bytes \<Rightarrow> bytes" where
  "block16 bs = take 16 (bs @ replicate 16 0)"

fun keystream :: "(bytes \<Rightarrow> bytes \<Rightarrow> bytes) \<Rightarrow> bytes \<Rightarrow> bytes \<Rightarrow> nat \<Rightarrow> bytes" where
  "keystream E k c 0 = []"
| "keystream E k c (Suc n) = block16 (E k c) @ keystream E k (increment c) n"

definition ctr_crypt :: "(bytes \<Rightarrow> bytes \<Rightarrow> bytes) \<Rightarrow> bytes \<Rightarrow> bytes \<Rightarrow> bytes \<Rightarrow> bytes" where
  "ctr_crypt E k c xs = map (\<lambda>(x, y). x XOR y) (zip xs (keystream E k c ((length xs + 15) div 16)))"

section \<open>The data model\<close>

text \<open>
  A secret record, as \<open>addSecret\<close> builds it. The views that \<open>listSecrets\<close>,
  \<open>getSecretMeta\<close> and the queries return are the record without its \<open>value\<close>
  (\<open>const { value, ...meta } = secret\<close>): \<open>secret_meta\<close> has every field but the value,
  and \<open>secret\<close> extends it by the value. \<open>expiresAt\<close> is \<open>null\<close> (\<open>None\<close>) or a string;
  \<open>metadata\<close> is an object, its properties in order, whose values are arbitrary JSON
  values. The other fields are strings, as the command shell passes them: a record whose
  name is \<open>undefined\<close>, or whose tags are not strings, is outside the model.
\<close>

datatype jsval = JNull | JBool bool | JNum int | JStr string
  | JArr "jsval list" | JObj "(string \<times> jsval) list"

record secret_meta =
  s_id :: string
  s_name :: string
  s_type :: string
  s_valueHash :: string
  s_createdAt :: string
  s_updatedAt :: string
  s_expiresAt :: "string option"
  s_metadata :: "(string \<times> jsval) list"
  s_tags :: "string list"
  s_notes :: string

record secret = secret_meta +
  s_value :: string

record vault_metadata =
  m_createdAt :: "string option"
  m_updatedAt :: "string option"
  m_salt :: "string option"

record vault_data =
  version :: int
  secrets :: "secret list"
  metadata :: vault_metadata

datatype error = VaultLocked | VaultMissing | NotFound | SyntaxError | FileMissing
  | InvalidKey | InvalidCounter

record platform =
  aes_encrypt :: "bytes \<Rightarrow> bytes \<Rightarrow> bytes"
  pbkdf2_sha256 :: "string \<Rightarrow> bytes \<Rightarrow> nat \<Rightarrow> nat \<Rightarrow> byte"
  sha256_hex :: "string \<Rightarrow> string"
  JSON_stringify :: "vault_data \<Rightarrow> string"
  JSON_parse :: "string \<Rightarrow> vault_data option"
  toISOString :: "int \<Rightarrow> string"
  Date_parse :: "string \<Rightarrow> int option"

text \<open>
  \<open>aes_encrypt key block\<close> is the AES encryption of one block. \<open>pbkdf2_sha256 p s c i\<close> is
  byte \<open>i\<close> of the PBKDF2-HMAC-SHA256 output for passphrase \<open>p\<close>, salt \<open>s\<close> and \<open>c\<close>
  iterations, so that \<open>pbkdf2Sync\<close> with key length \<open>n\<close> returns the first \<open>n\<close> bytes.
  \<open>JSON_parse\<close> is \<open>None\<close> where \<open>JSON.parse\<close> throws a SyntaxError; a text that parses to
  something else than a vault document is outside the model. \<open>Date_parse s\<close> is the time
  value of \<open>new Date(s)\<close>, \<open>None\<close> for an invalid date (time value NaN).
\<close>

definition pbkdf2Sync :: "platform \<Rightarrow> string \<Rightarrow> bytes \<Rightarrow> nat \<Rightarrow> nat \<Rightarrow> bytes" where
  "pbkdf2Sync P passphrase salt iterations keylen =
     map (pbkdf2_sha256 P passphrase salt iterations) [0..<keylen]"

definition Counter :: "bytes \<Rightarrow> error + bytes" where
  "Counter iv = (if length iv = 16 then Inr iv else Inl InvalidCounter)"

definition ModeOfOperation_ctr :: "platform \<Rightarrow> bytes option \<Rightarrow> bytes \<Rightarrow> error + (bytes \<Rightarrow> bytes)" where
  "ModeOfOperation_ctr P key counter =
     (case key of
        None \<Rightarrow> Inl InvalidKey
      | Some k \<Rightarrow>
          if length k = 16 \<or> length k = 24 \<or> length k = 32
          then Inr (ctr_crypt (aes_encrypt P) k counter)
          else Inl InvalidKey)"

section \<open>The cipher module (src/utils/crypto.js)\<close>

definition keyLength :: nat where "keyLength = 32"
definition ivLength :: nat where "ivLength = 16"
definition pbkdf2Iterations :: nat where "pbkdf2Iterations = 100000"

text \<open>\<open>deriveKey(passphrase, salt = null)\<close>: \<open>!salt\<close> holds for \<open>null\<close> and for the empty string.\<close>

definition deriveKey :: "platform \<Rightarrow> string \<Rightarrow> string option \<Rightarrow> tape \<Rightarrow> (bytes \<times> string) \<times> tape" where
  "deriveKey P passphrase salt g =
     (let (salt', g') =
            (if salt = None \<or> salt = Some []
             then (let (bs, g') = randomBytes 16 g in (toString_hex bs, g'))
             else (case salt of Some s \<Rightarrow> (s, g) | None \<Rightarrow> ([], g)));
          saltBuffer = from_hex salt';
          key = pbkdf2Sync P passphrase saltBuffer pbkdf2Iterations keyLength
      in ((key, salt'), g'))"

definition encrypt :: "platform \<Rightarrow> string \<Rightarrow> bytes option \<Rightarrow> tape \<Rightarrow> (error + string) \<times> tape" where
  "encrypt P plaintext key g =
     (let (iv, g') = randomBytes ivLength g in
      case Counter iv of
        Inl e \<Rightarrow> (Inl e, g')
      | Inr counter \<Rightarrow>
          (case ModeOfOperation_ctr P key counter of
             Inl e \<Rightarrow> (Inl e, g')
           | Inr aesCtr \<Rightarrow>
               (let encryptedBytes = aesCtr (utf8_toBytes plaintext);
                    combined = iv @ encryptedBytes
                in (Inr (toString_base64 combined), g'))))"

definition decrypt :: "platform \<Rightarrow> string \<Rightarrow> bytes option \<Rightarrow> error + string" where
  "decrypt P ciphertext key =
     (let combined = from_base64 ciphertext;
          iv = take ivLength combined;
          encryptedBytes = drop ivLength combined
      in case Counter iv of
           Inl e \<Rightarrow> Inl e
         | Inr counter \<Rightarrow>
             (case ModeOfOperation_ctr P key counter of
                Inl e \<Rightarrow> Inl e
              | Inr aesCtr \<Rightarrow> Inr (utf8_fromBytes (aesCtr encryptedBytes))))"

definition hash :: "platform \<Rightarrow> string \<Rightarrow> string" where
  "hash P v = sha256_hex P v"

definition generateSecret :: "nat \<Rightarrow> tape \<Rightarrow> string \<times> tape" where
  "generateSecret len g =
     (let (bs, g') = randomBytes len g in
      (filter (\<lambda>c. c \<noteq> CHR ''='')
         (map (\<lambda>c. if c = CHR ''/'' then CHR ''_'' else c)
            (map (\<lambda>c. if c = CHR ''+'' then CHR ''-'' else c) (toString_base64 bs))),
       g'))"

section \<open>The vault engine (src/storage/vault.js)\<close>

text \<open>
  The object of class \<open>SecretsVault\<close> with what it reaches outside itself: the file at
  \<open>vaultPath\<close> (\<open>None\<close> while it does not exist), the random tape and the clock. Writing the
  file always succeeds; the directory that \<open>save\<close> creates on demand is not modelled.
\<close>

record vault =
  data :: vault_data
  encryptionKey :: "bytes option"
  isUnlocked :: bool
  vaultFile :: "string option"
  rng :: tape
  clock :: "nat \<Rightarrow> int"

text \<open>The argument of \<open>addSecret\<close>; \<open>None\<close> is a property that is absent (\<open>undefined\<close>).\<close>

record secretData =
  d_name :: string
  d_type :: "string option"
  d_value :: string
  d_expiresAt :: "string option"
  d_metadata :: "(string \<times> jsval) list option"
  d_tags :: "string list option"
  d_notes :: "string option"

text \<open>
  The second argument of \<open>updateSecret\<close>. \<open>expiresAt\<close> may be absent (\<open>None\<close>), \<open>null\<close>
  (\<open>Some None\<close>) or a string.
\<close>

record updates =
  u_name :: "string option"
  u_type :: "string option"
  u_value :: "string option"
  u_expiresAt :: "string option option"
  u_metadata :: "(string \<times> jsval) list option"
  u_tags :: "string list option"
  u_notes :: "string option"

record added =
  a_id :: string
  a_name :: string
  a_type :: string
  a_value :: string
  a_expiresAt :: "string option"

record reply =
  success :: bool
  message :: string

text \<open>JavaScript truthiness of a value that is \<open>undefined\<close>, \<open>null\<close> or a string.\<close>

definition truthy :: "string option \<Rightarrow> bool" where
  "truthy x = (case x of None \<Rightarrow> False | Some s \<Rightarrow> s \<noteq> [])"

text \<open>\<open>x || d\<close> for such a value.\<close>

definition or_default :: "string option \<Rightarrow> string \<Rightarrow> string" where
  "or_default x d = (case x of None \<Rightarrow> d | Some s \<Rightarrow> if s = [] then d else s)"

text \<open>\<open>{ ...a, ...b }\<close>: the properties of \<open>a\<close>, then those of \<open>b\<close> assigned over them.\<close>

fun set_prop :: "string \<Rightarrow> 'v \<Rightarrow> (string \<times> 'v) list \<Rightarrow> (string \<times> 'v) list" where
  "set_prop k v [] = [(k, v)]"
| "set_prop k v ((k', v') # ps) = (if k = k' then (k, v) # ps else (k', v') # set_prop k v ps)"

definition spread :: "(string \<times> 'v) list \<Rightarrow> (string \<times> 'v) list \<Rightarrow> (string \<times> 'v) list" where
  "spread a b = foldl (\<lambda>acc (k, v). set_prop k v acc) a b"

fun findIndex :: "('a \<Rightarrow> bool) \<Rightarrow> 'a list \<Rightarrow> nat option" where
  "findIndex p [] = None"
| "findIndex p (x # xs) = (if p x then Some 0 else map_option Suc (findIndex p xs))"

text \<open>\<open>const { value, ...meta } = secret\<close>.\<close>

definition strip_value :: "secret \<Rightarrow> secret_meta" where
  "strip_value secret = secret_meta.truncate secret"

text \<open>\<open>String.prototype.toLowerCase\<close>, on the letters of ASCII.\<close>

definition lower_char :: "char \<Rightarrow> char" where
  "lower_char c = (let k = of_char c :: nat in if 65 \<le> k \<and> k \<le> 90 then char_of (k + 32) else c)"

definition toLowerCase :: "string \<Rightarrow> string" where
  "toLowerCase s = map lower_char s"

text \<open>\<open>s.includes(q)\<close>: \<open>q\<close> occurs in \<open>s\<close> at some position.\<close>

fun includes_str :: "string \<Rightarrow> string \<Rightarrow> bool" where
  "includes_str [] q = (q = [])"
| "includes_str (c # s) q = (take (length q) (c # s) = q \<or> includes_str s q)"

definition SecretsVault :: "string option \<Rightarrow> tape \<Rightarrow> (nat \<Rightarrow> int) \<Rightarrow> vault" where
  "SecretsVault f g c =
     \<lparr>data = \<lparr>version = 1, secrets = [],
              metadata = \<lparr>m_createdAt = None, m_updatedAt = None, m_salt = None\<rparr>\<rparr>,
      encryptionKey = None, isUnlocked = False, vaultFile = f, rng = g, clock = c\<rparr>"

definition save :: "platform \<Rightarrow> vault \<Rightarrow> vault" where
  "save P v = v\<lparr>vaultFile := Some (JSON_stringify P (data v))\<rparr>"

definition load :: "platform \<Rightarrow> vault \<Rightarrow> error + vault" where
  "load P v =
     (case vaultFile v of
        None \<Rightarrow> Inl FileMissing
      | Some raw \<Rightarrow>
          (case JSON_parse P raw of
             None \<Rightarrow> Inl SyntaxError
           | Some d \<Rightarrow> Inr (v\<lparr>data := d\<rparr>)))"

definition init :: "platform \<Rightarrow> string \<Rightarrow> vault \<Rightarrow> (error + reply) \<times> vault" where
  "init P passphrase v =
     (let ((key, salt), g) = deriveKey P passphrase None (rng v);
          md = (metadata (data v))
                 \<lparr>m_createdAt := Some (toISOString P (clock v 0)),
                  m_updatedAt := Some (toISOString P (clock v 1)),
                  m_salt := Some salt\<rparr>;
          v' = save P (v\<lparr>data := (data v)\<lparr>metadata := md\<rparr>, encryptionKey := Some key,
                        rng := g, clock := \<lambda>i. clock v (i + 2)\<rparr>)
      in (Inr \<lparr>success = True, message = ''Secrets vault initialized successfully''\<rparr>,
          v'\<lparr>isUnlocked := True\<rparr>))"

definition unlock :: "platform \<Rightarrow> string \<Rightarrow> vault \<Rightarrow> (error + reply) \<times> vault" where
  "unlock P passphrase v =
     (if vaultFile v = None then (Inl VaultMissing, v)
      else case load P v of
        Inl e \<Rightarrow> (Inl e, v)
      | Inr v1 \<Rightarrow>
          (let ((key, salt), g) = deriveKey P passphrase (m_salt (metadata (data v1))) (rng v1)
           in (Inr \<lparr>success = True, message = ''Vault unlocked successfully''\<rparr>,
               v1\<lparr>encryptionKey := Some key, isUnlocked := True, rng := g\<rparr>)))"

definition lock :: "vault \<Rightarrow> reply \<times> vault" where
  "lock v = (\<lparr>success = True, message = ''Vault locked''\<rparr>,
             v\<lparr>encryptionKey := None, isUnlocked := False\<rparr>)"

definition exists_vault :: "vault \<Rightarrow> bool" where
  "exists_vault v = (vaultFile v \<noteq> None)"

definition isVaultUnlocked :: "vault \<Rightarrow> bool" where
  "isVaultUnlocked v = isUnlocked v"

definition addSecret :: "platform \<Rightarrow> secretData \<Rightarrow> vault \<Rightarrow> (error + added) \<times> vault" where
  "addSecret P sd v =
     (if \<not> isUnlocked v then (Inl VaultLocked, v)
      else
        let (token, g1) = generateSecret 16 (rng v);
            ident = take 16 (filter (\<lambda>c. c \<noteq> CHR ''-'' \<and> c \<noteq> CHR ''_'') token)
        in case encrypt P (d_value sd) (encryptionKey v) g1 of
             (Inl e, g2) \<Rightarrow> (Inl e, v\<lparr>rng := g2\<rparr>)
           | (Inr c, g2) \<Rightarrow>
               (let secret =
                      \<lparr>s_id = ident,
                       s_name = d_name sd,
                       s_type = or_default (d_type sd) ''generic'',
                       s_valueHash = hash P (d_value sd),
                       s_createdAt = toISOString P (clock v 0),
                       s_updatedAt = toISOString P (clock v 1),
                       s_expiresAt = (if truthy (d_expiresAt sd) then d_expiresAt sd else None),
                       s_metadata = (case d_metadata sd of None \<Rightarrow> [] | Some m \<Rightarrow> m),
                       s_tags = (case d_tags sd of None \<Rightarrow> [] | Some ts \<Rightarrow> ts),
                       s_notes = or_default (d_notes sd) [],
                       s_value = c\<rparr>;
                    md = (metadata (data v))\<lparr>m_updatedAt := Some (toISOString P (clock v 2))\<rparr>;
                    v' = save P (v\<lparr>data := (data v)\<lparr>secrets := secrets (data v) @ [secret],
                                                     metadata := md\<rparr>,
                                  rng := g2, clock := \<lambda>i. clock v (i + 3)\<rparr>)
                in (Inr \<lparr>a_id = s_id secret, a_name = s_name secret, a_type = s_type secret,
                         a_value = d_value sd, a_expiresAt = s_expiresAt secret\<rparr>,
                    v')))"

definition getSecret :: "platform \<Rightarrow> string \<Rightarrow> vault \<Rightarrow> (error + secret) \<times> vault" where
  "getSecret P ident v =
     (if \<not> isUnlocked v then (Inl VaultLocked, v)
      else case find (\<lambda>s. s_id s = ident) (secrets (data v)) of
        None \<Rightarrow> (Inl NotFound, v)
      | Some secret \<Rightarrow>
          (case decrypt P (s_value secret) (encryptionKey v) of
             Inl e \<Rightarrow> (Inl e, v)
           | Inr plain \<Rightarrow> (Inr (secret\<lparr>s_value := plain\<rparr>), v)))"

definition getSecretMeta :: "string \<Rightarrow> vault \<Rightarrow> (error + secret_meta) \<times> vault" where
  "getSecretMeta ident v =
     (if \<not> isUnlocked v then (Inl VaultLocked, v)
      else case find (\<lambda>s. s_id s = ident) (secrets (data v)) of
        None \<Rightarrow> (Inl NotFound, v)
      | Some secret \<Rightarrow> (Inr (strip_value secret), v))"

definition listSecrets :: "vault \<Rightarrow> (error + secret_meta list) \<times> vault" where
  "listSecrets v =
     (if \<not> isUnlocked v then (Inl VaultLocked, v)
      else (Inr (map strip_value (secrets (data v))), v))"

text \<open>
  \<open>updateSecret\<close> assigns to the record found in \<open>this.data.secrets\<close>, in three groups:
  \<open>name\<close> and \<open>type\<close> (guarded by the truthiness of the update), \<open>value\<close> with its hash
  (guarded likewise; \<open>crypto.encrypt\<close> may throw), and \<open>expiresAt\<close>, \<open>metadata\<close>, \<open>tags\<close>
  and \<open>notes\<close> (\<open>expiresAt\<close> and \<open>notes\<close> guarded by \<open>!== undefined\<close>). The assignments
  made before \<open>crypto.encrypt\<close> throws stay in memory; they are not saved.
\<close>

definition assign_name_type :: "updates \<Rightarrow> secret \<Rightarrow> secret" where
  "assign_name_type up secret =
     (let secret = (case u_name up of
                      None \<Rightarrow> secret
                    | Some n \<Rightarrow> if truthy (Some n) then secret\<lparr>s_name := n\<rparr> else secret)
      in case u_type up of
           None \<Rightarrow> secret
         | Some t \<Rightarrow> if truthy (Some t) then secret\<lparr>s_type := t\<rparr> else secret)"

definition assign_value ::
  "platform \<Rightarrow> updates \<Rightarrow> bytes option \<Rightarrow> tape \<Rightarrow> secret \<Rightarrow> (error + secret) \<times> tape" where
  "assign_value P up key g secret =
     (case u_value up of
        None \<Rightarrow> (Inr secret, g)
      | Some x \<Rightarrow>
          if truthy (Some x)
          then (case encrypt P x key g of
                  (Inl e, g') \<Rightarrow> (Inl e, g')
                | (Inr c, g') \<Rightarrow> (Inr (secret\<lparr>s_value := c, s_valueHash := hash P x\<rparr>), g'))
          else (Inr secret, g))"

definition assign_rest :: "updates \<Rightarrow> secret \<Rightarrow> secret" where
  "assign_rest up secret =
     (let secret = (case u_expiresAt up of
                      None \<Rightarrow> secret
                    | Some e \<Rightarrow> secret\<lparr>s_expiresAt := e\<rparr>);
          secret = (case u_metadata up of
                      None \<Rightarrow> secret
                    | Some m \<Rightarrow> secret\<lparr>s_metadata := spread (s_metadata secret) m\<rparr>);
          secret = (case u_tags up of
                      None \<Rightarrow> secret
                    | Some ts \<Rightarrow> secret\<lparr>s_tags := ts\<rparr>)
      in case u_notes up of
           None \<Rightarrow> secret
         | Some n \<Rightarrow> secret\<lparr>s_notes := n\<rparr>)"

definition updateSecret :: "platform \<Rightarrow> string \<Rightarrow> updates \<Rightarrow> vault \<Rightarrow> (error + reply) \<times> vault" where
  "updateSecret P ident up v =
     (if \<not> isUnlocked v then (Inl VaultLocked, v)
      else case findIndex (\<lambda>s. s_id s = ident) (secrets (data v)) of
        None \<Rightarrow> (Inl NotFound, v)
      | Some index \<Rightarrow>
          (let secret = assign_name_type up (secrets (data v) ! index)
           in case assign_value P up (encryptionKey v) (rng v) secret of
                (Inl e, g) \<Rightarrow>
                  (Inl e, v\<lparr>data := (data v)\<lparr>secrets := (secrets (data v))[index := secret]\<rparr>,
                            rng := g\<rparr>)
              | (Inr secret, g) \<Rightarrow>
                  (let secret = (assign_rest up secret)\<lparr>s_updatedAt := toISOString P (clock v 0)\<rparr>;
                       md = (metadata (data v))\<lparr>m_updatedAt := Some (toISOString P (clock v 1))\<rparr>;
                       v' = save P (v\<lparr>data := (data v)\<lparr>secrets := (secrets (data v))[index := secret],
                                                        metadata := md\<rparr>,
                                     rng := g, clock := \<lambda>i. clock v (i + 2)\<rparr>)
                   in (Inr \<lparr>success = True, message = ''Secret updated successfully''\<rparr>, v'))))"

definition deleteSecret :: "platform \<Rightarrow> string \<Rightarrow> vault \<Rightarrow> (error + reply) \<times> vault" where
  "deleteSecret P ident v =
     (if \<not> isUnlocked v then (Inl VaultLocked, v)
      else case findIndex (\<lambda>s. s_id s = ident) (secrets (data v)) of
        None \<Rightarrow> (Inl NotFound, v)
      | Some index \<Rightarrow>
          (let spliced = take index (secrets (data v)) @ drop (Suc index) (secrets (data v));
               md = (metadata (data v))\<lparr>m_updatedAt := Some (toISOString P (clock v 0))\<rparr>;
               v' = save P (v\<lparr>data := (data v)\<lparr>secrets := spliced, metadata := md\<rparr>,
                             clock := \<lambda>i. clock v (i + 1)\<rparr>)
           in (Inr \<lparr>success = True, message = ''Secret deleted successfully''\<rparr>, v')))"

definition searchSecrets :: "string \<Rightarrow> vault \<Rightarrow> (error + secret_meta list) \<times> vault" where
  "searchSecrets query v =
     (if \<not> isUnlocked v then (Inl VaultLocked, v)
      else
        let q = toLowerCase query
        in (Inr (map strip_value
                   (filter (\<lambda>secret.
                        includes_str (toLowerCase (s_name secret)) q \<or>
                        includes_str (toLowerCase (s_type secret)) q \<or>
                        list_ex (\<lambda>tag. includes_str (toLowerCase tag) q) (s_tags secret))
                      (secrets (data v)))),
            v))"

definition getSecretsByType :: "string \<Rightarrow> vault \<Rightarrow> (error + secret_meta list) \<times> vault" where
  "getSecretsByType t v =
     (if \<not> isUnlocked v then (Inl VaultLocked, v)
      else (Inr (map strip_value (filter (\<lambda>s. s_type s = t) (secrets (data v)))), v))"

text \<open>
  \<open>new Date(secret.expiresAt) <= now\<close> compares the time values; with an invalid date the
  comparison is with NaN and is false.
\<close>

definition getExpiredSecrets :: "platform \<Rightarrow> vault \<Rightarrow> (error + secret_meta list) \<times> vault" where
  "getExpiredSecrets P v =
     (if \<not> isUnlocked v then (Inl VaultLocked, v)
      else
        let now = clock v 0
        in (Inr (map strip_value
                   (filter (\<lambda>secret.
                        if \<not> truthy (s_expiresAt secret) then False
                        else (case s_expiresAt secret of
                                None \<Rightarrow> False
                              | Some e \<Rightarrow>
                                  (case Date_parse P e of None \<Rightarrow> False | Some t \<Rightarrow> t \<le> now)))
                      (secrets (data v)))),
            v\<lparr>clock := \<lambda>i. clock v (i + 1)\<rparr>))"

definition exportVault :: "platform \<Rightarrow> vault \<Rightarrow> (error + string) \<times> vault" where
  "exportVault P v =
     (if \<not> isUnlocked v then (Inl VaultLocked, v)
      else (Inr (JSON_stringify P (data v)), v))"

definition importVault :: "platform \<Rightarrow> string \<Rightarrow> vault \<Rightarrow> (error + reply) \<times> vault" where
  "importVault P blob v =
     (if \<not> isUnlocked v then (Inl VaultLocked, v)
      else case JSON_parse P blob of
        None \<Rightarrow> (Inl SyntaxError, v)
      | Some imported \<Rightarrow>
          (Inr \<lparr>success = True, message = ''Secrets imported successfully''\<rparr>,
           save P (v\<lparr>data := imported\<rparr>)))"

section \<open>The properties, in the specification's words\<close>


text \<open>A record is expired at \<open>now\<close>: its \<open>expiresAt\<close> is set, and is a time not after \<open>now\<close>.\<close>

definition expired :: "platform \<Rightarrow> int \<Rightarrow> secret \<Rightarrow> bool" where
  "expired P now secret =
     (case s_expiresAt secret of
        None \<Rightarrow> False
      | Some e \<Rightarrow> (case Date_parse P e of None \<Rightarrow> False | Some t \<Rightarrow> t \<le> now))"

text \<open>The updates object \<open>{}\<close>.\<close>

definition no_updates :: updates where
  "no_updates =
     \<lparr>u_name = None, u_type = None, u_value = None, u_expiresAt = None,
      u_metadata = None, u_tags = None, u_notes = None\<rparr>"

section \<open>A platform and a vault to evaluate on\<close>

text \<open>
  The theorems hold for every platform. To run the operations on concrete input, here is
  one whose functions are stand-ins of the right type, none of them the cryptographic
  function it stands for; its JSON functions know two documents, its date functions five
  instants. The vault holds three records; it is unlocked, and its file holds its data.
\<close>

definition sample_db :: secret where
  \<open>sample_db =
     \<lparr>s_id = ''a1B2c3D4e5F6g7H8'', s_name = ''DB Password'', s_type = ''password'',
      s_valueHash = ''1111111111111111111111111111111111111111111111111111111111111111'',
      s_createdAt = ''2023-11-14T22:13:20.000Z'', s_updatedAt = ''2023-11-14T22:13:20.000Z'',
      s_expiresAt = Some ''2020-09-13T12:26:40.000Z'', s_metadata = [],
      s_tags = [''prod''], s_notes = '''',
      s_value = ''AAECAwQFBgcICQoLDA0ODxAREhMUFQ==''\<rparr>\<close>

definition sample_token :: secret where
  \<open>sample_token =
     \<lparr>s_id = ''Zx9Yw8Vu7Ts6Rq5P'', s_name = ''API token'', s_type = ''token'',
      s_valueHash = ''2222222222222222222222222222222222222222222222222222222222222222'',
      s_createdAt = ''2023-11-14T22:13:20.000Z'', s_updatedAt = ''2023-11-14T22:13:20.000Z'',
      s_expiresAt = Some ''2100-01-01T00:00:00.000Z'', s_metadata = [(''owner'', JStr ''ops'')],
      s_tags = [''staging'', ''api-key''], s_notes = '''',
      s_value = ''KCkqKywtLi8wMTIzNDU2Nzg5Ojs8PQ==''\<rparr>\<close>

definition sample_ssh :: secret where
  \<open>sample_ssh =
     \<lparr>s_id = ''k3yK3yk3yK3yk3yK'', s_name = ''ssh key'', s_type = ''key'',
      s_valueHash = ''3333333333333333333333333333333333333333333333333333333333333333'',
      s_createdAt = ''2023-11-14T22:13:20.000Z'', s_updatedAt = ''2023-11-14T22:13:20.000Z'',
      s_expiresAt = None, s_metadata = [],
      s_tags = [], s_notes = ''rotate yearly'',
      s_value = ''UFFSU1RVVldYWVpbXF1eX2BhYmNkZQ==''\<rparr>\<close>

definition sample_data :: vault_data where
  \<open>sample_data =
     \<lparr>version = 1, secrets = [sample_db, sample_token, sample_ssh],
      metadata = \<lparr>m_createdAt = Some ''2023-11-14T22:13:20.000Z'', m_updatedAt = Some ''2023-11-14T22:13:20.000Z'',
                  m_salt = Some ''00112233445566778899aabbccddeeff''\<rparr>\<rparr>\<close>

definition other_data :: vault_data where
  \<open>other_data =
     \<lparr>version = 1, secrets = [],
      metadata = \<lparr>m_createdAt = Some ''2020-09-13T12:26:40.000Z'', m_updatedAt = Some ''2020-09-13T12:26:40.000Z'',
                  m_salt = Some ''ffeeddccbbaa99887766554433221100''\<rparr>\<rparr>\<close>

definition sample_text :: string where
  \<open>sample_text =
     ''{\<newline>  "version": 1,\<newline>  "secrets": [\<newline>    {\<newline>      "id": "'' @
     ''a1B2c3D4e5F6g7H8",\<newline>      "name": "DB Password",\<newline>      "type": "passwor'' @
     ''d",\<newline>      "value": "AAECAwQFBgcICQoLDA0ODxAREhMUFQ==",\<newline>      "valueHas'' @
     ''h": "1111111111111111111111111111111111111111111111111111111111111111",\<newline>      "'' @
     ''createdAt": "2023-11-14T22:13:20.000Z",\<newline>      "updatedAt": "2023-11-14T22:13:20'' @
     ''.000Z",\<newline>      "expiresAt": "2020-09-13T12:26:40.000Z",\<newline>      "metadata'' @
     ''": {},\<newline>      "tags": [\<newline>        "prod"\<newline>      ],\<newline>     '' @
     '' "notes": ""\<newline>    },\<newline>    {\<newline>      "id": "Zx9Yw8Vu7Ts6Rq5P",'' @
     ''\<newline>      "name": "API token",\<newline>      "type": "token",\<newline>      "val'' @
     ''ue": "KCkqKywtLi8wMTIzNDU2Nzg5Ojs8PQ==",\<newline>      "valueHash": "222222222222222222'' @
     ''2222222222222222222222222222222222222222222222",\<newline>      "createdAt": "2023-11-14'' @
     ''T22:13:20.000Z",\<newline>      "updatedAt": "2023-11-14T22:13:20.000Z",\<newline>      '' @
     ''"expiresAt": "2100-01-01T00:00:00.000Z",\<newline>      "metadata": {\<newline>        "'' @
     ''owner": "ops"\<newline>      },\<newline>      "tags": [\<newline>        "staging",'' @
     ''\<newline>        "api-key"\<newline>      ],\<newline>      "notes": ""\<newline>    },'' @
     ''\<newline>    {\<newline>      "id": "k3yK3yk3yK3yk3yK",\<newline>      "name": "ssh key'' @
     ''",\<newline>      "type": "key",\<newline>      "value": "UFFSU1RVVldYWVpbXF1eX2BhYmNkZQ'' @
     ''==",\<newline>      "valueHash": "333333333333333333333333333333333333333333333333333333'' @
     ''3333333333",\<newline>      "createdAt": "2023-11-14T22:13:20.000Z",\<newline>      "upd'' @
     ''atedAt": "2023-11-14T22:13:20.000Z",\<newline>      "expiresAt": null,\<newline>      "m'' @
     ''etadata": {},\<newline>      "tags": [],\<newline>      "notes": "rotate yearly"'' @
     ''\<newline>    }\<newline>  ],\<newline>  "metadata": {\<newline>    "createdAt": "2023-1'' @
     ''1-14T22:13:20.000Z",\<newline>    "updatedAt": "2023-11-14T22:13:20.000Z",\<newline>    '' @
     ''"salt": "00112233445566778899aabbccddeeff"\<newline>  }\<newline>}''\<close>

definition other_text :: string where
  \<open>other_text =
     ''{"version":1,"secrets":[],"metadata":{"createdAt":"2020-09-13T12:26:40.000Z","updatedAt"'' @
     '':"2020-09-13T12:26:40.000Z","salt":"ffeeddccbbaa99887766554433221100"}}''\<close>

definition sample_times :: "(int \<times> string) list" where
  "sample_times =
     [(1700000000000, ''2023-11-14T22:13:20.000Z''),
      (1700000001000, ''2023-11-14T22:13:21.000Z''),
      (1700000002000, ''2023-11-14T22:13:22.000Z''),
      (1600000000000, ''2020-09-13T12:26:40.000Z''),
      (4102444800000, ''2100-01-01T00:00:00.000Z'')]"

definition toy_platform :: platform where
  "toy_platform =
     \<lparr>aes_encrypt = (\<lambda>k b. map (\<lambda>(x, y). x XOR y) (zip (take 16 k) b)),
      pbkdf2_sha256 = (\<lambda>p s c i. of_nat (length p + length s + 7 * i)),
      sha256_hex = (\<lambda>s. toString_hex (utf8_toBytes s)),
      JSON_stringify = (\<lambda>d. if d = sample_data then sample_text
                            else if d = other_data then other_text else ''null''),
      JSON_parse = (\<lambda>t. if t = sample_text then Some sample_data
                        else if t = other_text then Some other_data else None),
      toISOString = (\<lambda>t. case map_of sample_times t of
                             Some s \<Rightarrow> s | None \<Rightarrow> ''1970-01-01T00:00:00.000Z''),
      Date_parse = (\<lambda>s. map_of (map (\<lambda>(t, s). (s, t)) sample_times) s)\<rparr>"

definition sample_tape :: tape where
  "sample_tape i = of_nat (7 * i + 3)"


definition sample_clock :: "nat \<Rightarrow> int" where
  "sample_clock i = 1700000001000 + 1000 * int i"

definition sample_enc_key :: bytes where
  "sample_enc_key =
     fst (fst (deriveKey toy_platform ''pw1'' (Some ''00112233445566778899aabbccddeeff'') sample_tape))"

definition sample_vault :: vault where
  "sample_vault =
     \<lparr>data = sample_data, encryptionKey = Some sample_enc_key, isUnlocked = True,
      vaultFile = Some sample_text, rng = sample_tape, clock = sample_clock\<rparr>"

definition new_secret :: secretData where
  "new_secret =
     \<lparr>d_name = ''db'', d_type = Some ''password'', d_value = ''s3cr3t'', d_expiresAt = None,
      d_metadata = None, d_tags = None, d_notes = None\<rparr>"

definition locked_vault :: vault where
  "locked_vault = snd (lock sample_vault)"

section \<open>The encodings and the counter mode\<close>

















section \<open>The steps of \<open>updateSecret\<close>\<close>

lemma assign_value_absent: "u_value up = None \<Longrightarrow> assign_value P up key g secret = (Inr secret, g)"
  by (simp add: assign_value_def)

lemma assign_name_type_value:
  "s_value (assign_name_type up secret) = s_value secret \<and>
   s_valueHash (assign_name_type up secret) = s_valueHash secret"
  by (simp add: assign_name_type_def Let_def split: option.splits)

lemma assign_rest_value:
  "s_value (assign_rest up secret) = s_value secret \<and>
   s_valueHash (assign_rest up secret) = s_valueHash secret"
  by (simp add: assign_rest_def Let_def split: option.splits)

lemma findIndex_Some:
  "findIndex p xs = Some i \<Longrightarrow> i < length xs \<and> p (xs ! i) \<and> (\<forall>j<i. \<not> p (xs ! j))"
proof (induction xs arbitrary: i)
  case Nil
  then show ?case by simp
next
  case (Cons x xs)
  show ?case
  proof (cases "p x")
    case True
    with Cons.prems show ?thesis by simp
  next
    case False
    with Cons.prems obtain k where k: "findIndex p xs = Some k" "i = Suc k"
      by auto
    from Cons.IH [OF k(1)] False k(2) show ?thesis
      by (auto simp: less_Suc_eq_0_disj)
  qed
qed

lemma map_update_same: "i < length xs \<Longrightarrow> (map f xs)[i := f (xs ! i)] = map f xs"
  by (simp add: list_eq_iff_nth_eq nth_list_update)






section \<open>Search and expiry\<close>



lemma expired_filter:
  assumes "Date_parse P [] = None"
  shows "(if \<not> truthy (s_expiresAt secret) then False
          else (case s_expiresAt secret of
                  None \<Rightarrow> False
                | Some e \<Rightarrow> (case Date_parse P e of None \<Rightarrow> False | Some t \<Rightarrow> t \<le> now)))
         = expired P now secret"
  using assms by (cases "s_expiresAt secret") (auto simp: expired_def truthy_def)

lemma strip_expiresAt: "s_expiresAt (strip_value s) = s_expiresAt s"
  by (simp add: strip_value_def secret_meta.truncate_def)

section \<open>The salt under each operation\<close>

lemma salt_addSecret: "m_salt (metadata (data (snd (addSecret P sd v)))) = m_salt (metadata (data v))"
  by (simp add: addSecret_def save_def Let_def split: prod.splits sum.splits)

lemma salt_updateSecret:
  "m_salt (metadata (data (snd (updateSecret P ident up v)))) = m_salt (metadata (data v))"
  by (simp add: updateSecret_def save_def Let_def split: prod.splits sum.splits option.splits)

lemma salt_deleteSecret:
  "m_salt (metadata (data (snd (deleteSecret P ident v)))) = m_salt (metadata (data v))"
  by (simp add: deleteSecret_def save_def Let_def split: option.splits)

lemma salt_queries:
  "m_salt (metadata (data (snd (getSecret P ident v)))) = m_salt (metadata (data v))"
  "m_salt (metadata (data (snd (getSecretMeta ident v)))) = m_salt (metadata (data v))"
  "m_salt (metadata (data (snd (listSecrets v)))) = m_salt (metadata (data v))"
  "m_salt (metadata (data (snd (searchSecrets query v)))) = m_salt (metadata (data v))"
  "m_salt (metadata (data (snd (getSecretsByType t v)))) = m_salt (metadata (data v))"
  "m_salt (metadata (data (snd (getExpiredSecrets P v)))) = m_salt (metadata (data v))"
  "m_salt (metadata (data (snd (exportVault P v)))) = m_salt (metadata (data v))"
  "m_salt (metadata (data (snd (lock v)))) = m_salt (metadata (data v))"
  by (simp_all add: getSecret_def getSecretMeta_def listSecrets_def searchSecrets_def
      getSecretsByType_def getExpiredSecrets_def exportVault_def lock_def Let_def
      split: option.splits sum.splits)

lemma salt_init:
  "m_salt (metadata (data (snd (init P passphrase v)))) =
     Some (toString_hex (fst (randomBytes 16 (rng v))))"
  by (simp add: init_def deriveKey_def save_def Let_def split_beta)

lemma salt_importVault:
  "m_salt (metadata (data (snd (importVault P blob v)))) =
     (if isUnlocked v
      then (case JSON_parse P blob of
              None \<Rightarrow> m_salt (metadata (data v))
            | Some imported \<Rightarrow> m_salt (metadata imported))
      else m_salt (metadata (data v)))"
  by (simp add: importVault_def save_def split: option.splits)

lemma salt_unlock:
  "m_salt (metadata (data (snd (unlock P passphrase v)))) =
     (case vaultFile v of
        None \<Rightarrow> m_salt (metadata (data v))
      | Some raw \<Rightarrow>
          (case JSON_parse P raw of
             None \<Rightarrow> m_salt (metadata (data v))
           | Some d \<Rightarrow> m_salt (metadata d)))"
  by (simp add: unlock_def load_def Let_def split_beta split: option.splits)

section \<open>Evaluating on the sample\<close>









lemmas sample_defs = sample_vault_def sample_data_def sample_db_def sample_token_def
  sample_ssh_def sample_clock_def

lemma sample_unlocked: "isUnlocked sample_vault"
  by (simp add: sample_vault_def)



lemma sample_index_db:
  "findIndex (\<lambda>s. s_id s = ''a1B2c3D4e5F6g7H8'') (secrets (data sample_vault)) = Some 0"
  by (simp add: sample_defs)

lemma sample_index_token:
  "findIndex (\<lambda>s. s_id s = ''Zx9Yw8Vu7Ts6Rq5P'') (secrets (data sample_vault)) = Some 1"
  by (simp add: sample_defs)






section \<open>The claims\<close>

subsection \<open>C1: decryption inverts encryption\<close>



subsection \<open>C2: a locked vault refuses every data operation\<close>

text \<open>
  Claim C2. While \<open>isUnlocked\<close> is false (the vault is locked, or was never initialized or
  unlocked), each of the eleven data operations fails with the vault-locked error and
  returns the state as it was: the data, the key, the file and the tapes.
\<close>

theorem locked_operations_fail:
  assumes "\<not> isUnlocked v"
  shows "addSecret P sd v = (Inl VaultLocked, v) \<and>
         getSecret P ident v = (Inl VaultLocked, v) \<and>
         getSecretMeta ident v = (Inl VaultLocked, v) \<and>
         listSecrets v = (Inl VaultLocked, v) \<and>
         updateSecret P ident up v = (Inl VaultLocked, v) \<and>
         deleteSecret P ident v = (Inl VaultLocked, v) \<and>
         searchSecrets query v = (Inl VaultLocked, v) \<and>
         getSecretsByType t v = (Inl VaultLocked, v) \<and>
         getExpiredSecrets P v = (Inl VaultLocked, v) \<and>
         exportVault P v = (Inl VaultLocked, v) \<and>
         importVault P blob v = (Inl VaultLocked, v)"
  using assms
  by (simp add: addSecret_def getSecret_def getSecretMeta_def listSecrets_def
      updateSecret_def deleteSecret_def searchSecrets_def getSecretsByType_def
      getExpiredSecrets_def exportVault_def importVault_def)

text \<open>
  The sample vault after \<open>lock\<close>, and a vault object that was only constructed.
\<close>

theorem locked_witness:
  "\<not> isUnlocked locked_vault \<and>
   addSecret toy_platform new_secret locked_vault = (Inl VaultLocked, locked_vault) \<and>
   getSecret toy_platform ''a1B2c3D4e5F6g7H8'' locked_vault = (Inl VaultLocked, locked_vault) \<and>
   updateSecret toy_platform ''a1B2c3D4e5F6g7H8'' no_updates locked_vault =
     (Inl VaultLocked, locked_vault) \<and>
   importVault toy_platform other_text locked_vault = (Inl VaultLocked, locked_vault) \<and>
   vaultFile locked_vault = Some sample_text \<and> data locked_vault = sample_data \<and>
   \<not> isUnlocked (SecretsVault None sample_tape sample_clock) \<and>
   addSecret toy_platform new_secret (SecretsVault None sample_tape sample_clock) =
     (Inl VaultLocked, SecretsVault None sample_tape sample_clock)"
proof -
  have l: "\<not> isUnlocked locked_vault"
    by (simp add: locked_vault_def lock_def)
  have f: "\<not> isUnlocked (SecretsVault None sample_tape sample_clock)"
    by (simp add: SecretsVault_def)
  from locked_operations_fail [OF l, of toy_platform new_secret "''a1B2c3D4e5F6g7H8''" no_updates
      "''KEY''" "''token''" other_text]
    locked_operations_fail [OF f, of toy_platform new_secret "''a1B2c3D4e5F6g7H8''" no_updates
      "''KEY''" "''token''" other_text] l f
  show ?thesis
    by (simp add: locked_vault_def lock_def sample_vault_def)
qed

subsection \<open>C3: the salt\<close>

text \<open>
  Claim C3, as the code has it. \<open>init\<close> sets \<open>metadata.salt\<close> to the hex text of 16
  random bytes. \<open>addSecret\<close>, \<open>getSecret\<close>, \<open>getSecretMeta\<close>, \<open>listSecrets\<close>,
  \<open>updateSecret\<close>, \<open>deleteSecret\<close>, \<open>searchSecrets\<close>, \<open>getSecretsByType\<close>,
  \<open>getExpiredSecrets\<close>, \<open>exportVault\<close> and \<open>lock\<close> leave it as it is, whether they
  succeed or fail. \<open>importVault\<close> replaces the whole data object, so that afterwards the
  salt is the one of the imported document; \<open>unlock\<close> reads the data, and the salt with
  it, from the file.
\<close>

theorem salt_changes_only_by_replacement:
  "m_salt (metadata (data (snd (init P passphrase v)))) =
     Some (toString_hex (fst (randomBytes 16 (rng v)))) \<and>
   m_salt (metadata (data (snd (addSecret P sd v)))) = m_salt (metadata (data v)) \<and>
   m_salt (metadata (data (snd (getSecret P ident v)))) = m_salt (metadata (data v)) \<and>
   m_salt (metadata (data (snd (getSecretMeta ident v)))) = m_salt (metadata (data v)) \<and>
   m_salt (metadata (data (snd (listSecrets v)))) = m_salt (metadata (data v)) \<and>
   m_salt (metadata (data (snd (updateSecret P ident up v)))) = m_salt (metadata (data v)) \<and>
   m_salt (metadata (data (snd (deleteSecret P ident v)))) = m_salt (metadata (data v)) \<and>
   m_salt (metadata (data (snd (searchSecrets query v)))) = m_salt (metadata (data v)) \<and>
   m_salt (metadata (data (snd (getSecretsByType t v)))) = m_salt (metadata (data v)) \<and>
   m_salt (metadata (data (snd (getExpiredSecrets P v)))) = m_salt (metadata (data v)) \<and>
   m_salt (metadata (data (snd (exportVault P v)))) = m_salt (metadata (data v)) \<and>
   m_salt (metadata (data (snd (lock v)))) = m_salt (metadata (data v)) \<and>
   m_salt (metadata (data (snd (importVault P blob v)))) =
     (if isUnlocked v
      then (case JSON_parse P blob of
              None \<Rightarrow> m_salt (metadata (data v))
            | Some imported \<Rightarrow> m_salt (metadata imported))
      else m_salt (metadata (data v))) \<and>
   m_salt (metadata (data (snd (unlock P passphrase v)))) =
     (case vaultFile v of
        None \<Rightarrow> m_salt (metadata (data v))
      | Some raw \<Rightarrow>
          (case JSON_parse P raw of
             None \<Rightarrow> m_salt (metadata (data v))
           | Some d \<Rightarrow> m_salt (metadata d)))"
  by (simp only: salt_init salt_addSecret salt_updateSecret salt_deleteSecret salt_queries
      salt_importVault salt_unlock simp_thms)

theorem salt_witness:
  "m_salt (metadata (data (snd (updateSecret toy_platform ''a1B2c3D4e5F6g7H8''
       (no_updates\<lparr>u_name := Some ''Database''\<rparr>) sample_vault)))) =
     Some ''00112233445566778899aabbccddeeff'' \<and>
   m_salt (metadata (data (snd (deleteSecret toy_platform ''a1B2c3D4e5F6g7H8'' sample_vault)))) =
     Some ''00112233445566778899aabbccddeeff'' \<and>
   m_salt (metadata (data (snd (addSecret toy_platform new_secret sample_vault)))) =
     Some ''00112233445566778899aabbccddeeff''"
proof -
  have s: "m_salt (metadata (data sample_vault)) = Some ''00112233445566778899aabbccddeeff''"
    by (simp add: sample_vault_def sample_data_def)
  from salt_changes_only_by_replacement [of toy_platform "''pw1''" sample_vault new_secret
      "''a1B2c3D4e5F6g7H8''" "no_updates\<lparr>u_name := Some ''Database''\<rparr>" "''KEY''" "''token''" other_text]
  show ?thesis
    by (simp only: s simp_thms)
qed

text \<open>
  The claim as it is written fails for \<open>importVault\<close>: importing a document with another
  salt into the sample vault changes the salt.
\<close>

theorem import_changes_salt:
  "m_salt (metadata (data (snd (importVault toy_platform other_text sample_vault)))) =
     Some ''ffeeddccbbaa99887766554433221100'' \<and>
   m_salt (metadata (data sample_vault)) = Some ''00112233445566778899aabbccddeeff''"
  by (simp add: importVault_def save_def sample_vault_def toy_platform_def sample_data_def
      other_data_def other_text_def sample_text_def)

subsection \<open>C4: the fields that \<open>updateSecret\<close> writes\<close>




subsection \<open>C5: the IV of each encryption\<close>




subsection \<open>C6: expired records\<close>

text \<open>
  Claim C6. On an unlocked vault \<open>getExpiredSecrets\<close> reads the clock once and returns,
  in order and without their values, exactly the records that are expired at that instant:
  \<open>expiresAt\<close> is set and is a time not after it. No returned record lacks \<open>expiresAt\<close>,
  and every record whose \<open>expiresAt\<close> is a time not after the reading is returned. (Of the
  platform: \<open>new Date('')\<close> is an invalid date.)
\<close>

theorem getExpiredSecrets_exact:
  assumes "isUnlocked v" and "Date_parse P [] = None"
  shows "\<exists>result. getExpiredSecrets P v = (Inr result, v\<lparr>clock := \<lambda>i. clock v (i + 1)\<rparr>) \<and>
           result = map strip_value (filter (expired P (clock v 0)) (secrets (data v))) \<and>
           (\<forall>m\<in>set result. s_expiresAt m \<noteq> None) \<and>
           (\<forall>s\<in>set (secrets (data v)). \<forall>e t. s_expiresAt s = Some e \<and> Date_parse P e = Some t \<and> t \<le> clock v 0
               \<longrightarrow> strip_value s \<in> set result)"
proof -
  let ?result = "map strip_value (filter (expired P (clock v 0)) (secrets (data v)))"
  have run: "getExpiredSecrets P v = (Inr ?result, v\<lparr>clock := \<lambda>i. clock v (i + 1)\<rparr>)"
    using assms by (simp add: getExpiredSecrets_def expired_filter)
  have set: "\<forall>m\<in>set ?result. s_expiresAt m \<noteq> None"
    by (auto simp: strip_expiresAt expired_def split: option.splits)
  have past: "\<forall>s\<in>set (secrets (data v)). \<forall>e t. s_expiresAt s = Some e \<and> Date_parse P e = Some t \<and> t \<le> clock v 0
               \<longrightarrow> strip_value s \<in> set ?result"
    by (auto simp: expired_def)
  from run set past show ?thesis by blast
qed

theorem expired_witness:
  "isUnlocked sample_vault \<and> Date_parse toy_platform [] = None \<and>
   fst (getExpiredSecrets toy_platform sample_vault) = Inr [strip_value sample_db] \<and>
   filter (expired toy_platform (clock sample_vault 0)) (secrets (data sample_vault)) = [sample_db]"
proof -
  have u: "isUnlocked sample_vault"
    by (simp add: sample_vault_def)
  have d: "Date_parse toy_platform [] = None"
    by (simp add: toy_platform_def sample_times_def)
  have f: "filter (expired toy_platform (clock sample_vault 0)) (secrets (data sample_vault)) = [sample_db]"
    by (simp add: expired_def toy_platform_def sample_times_def sample_defs)
  from getExpiredSecrets_exact [OF u d] u d f show ?thesis
    by auto
qed

subsection \<open>C7: search\<close>



subsection \<open>C8: an update without a value keeps the hash\<close>

text \<open>
  Claim C8. For an existing id, \<open>updateSecret\<close> with an update that has no \<open>value\<close>
  succeeds and leaves the \<open>valueHash\<close> and the ciphertext of every record as they were,
  whatever else the update has.
\<close>

theorem update_without_value_keeps_hash:
  assumes "isUnlocked v"
    and "findIndex (\<lambda>s. s_id s = ident) (secrets (data v)) = Some i"
    and "u_value up = None"
  shows "\<exists>v'. updateSecret P ident up v =
                 (Inr \<lparr>success = True, message = ''Secret updated successfully''\<rparr>, v') \<and>
              map s_valueHash (secrets (data v')) = map s_valueHash (secrets (data v)) \<and>
              map s_value (secrets (data v')) = map s_value (secrets (data v))"
proof -
  have i: "i < length (secrets (data v))"
    using findIndex_Some [OF assms(2)] by simp
  show ?thesis
    using assms i
    by (simp add: updateSecret_def assign_value_absent Let_def save_def map_update
        assign_name_type_value assign_rest_value map_update_same)
qed

theorem update_without_value_witness:
  "isUnlocked sample_vault \<and>
   findIndex (\<lambda>s. s_id s = ''a1B2c3D4e5F6g7H8'') (secrets (data sample_vault)) = Some 0 \<and>
   u_value (no_updates\<lparr>u_name := Some ''Database password'', u_notes := Some ''rotated''\<rparr>) = None \<and>
   map s_valueHash
     (secrets (data (snd (updateSecret toy_platform ''a1B2c3D4e5F6g7H8''
        (no_updates\<lparr>u_name := Some ''Database password'', u_notes := Some ''rotated''\<rparr>)
        sample_vault)))) =
   [''1111111111111111111111111111111111111111111111111111111111111111'',
    ''2222222222222222222222222222222222222222222222222222222222222222'',
    ''3333333333333333333333333333333333333333333333333333333333333333'']"
proof -
  let ?up = "no_updates\<lparr>u_name := Some ''Database password'', u_notes := Some ''rotated''\<rparr>"
  have n: "u_value ?up = None"
    by (simp add: no_updates_def)
  have h: "map s_valueHash (secrets (data sample_vault)) =
    [''1111111111111111111111111111111111111111111111111111111111111111'',
     ''2222222222222222222222222222222222222222222222222222222222222222'',
     ''3333333333333333333333333333333333333333333333333333333333333333'']"
    by (simp add: sample_defs)
  from update_without_value_keeps_hash [OF sample_unlocked sample_index_db n, of toy_platform]
    sample_unlocked sample_index_db n h
  show ?thesis
    by auto
qed

subsection \<open>C9: export, then import\<close>



subsection \<open>C10: the empty update\<close>

text \<open>
  Claim C10. For an existing id, \<open>updateSecret\<close> with the update \<open>{}\<close> succeeds. The
  record keeps every field but \<open>updatedAt\<close>, which becomes the first clock reading; the
  vault's \<open>metadata.updatedAt\<close> becomes the second; the file is written with the new data.
  Nothing else changes.
\<close>

theorem empty_update_bumps_timestamps:
  assumes "isUnlocked v"
    and "findIndex (\<lambda>s. s_id s = ident) (secrets (data v)) = Some i"
  shows "updateSecret P ident no_updates v =
           (Inr \<lparr>success = True, message = ''Secret updated successfully''\<rparr>,
            v\<lparr>data := (data v)
                 \<lparr>secrets := (secrets (data v))
                    [i := (secrets (data v) ! i)\<lparr>s_updatedAt := toISOString P (clock v 0)\<rparr>],
                  metadata := (metadata (data v))\<lparr>m_updatedAt := Some (toISOString P (clock v 1))\<rparr>\<rparr>,
               vaultFile := Some (JSON_stringify P
                 ((data v)
                   \<lparr>secrets := (secrets (data v))
                      [i := (secrets (data v) ! i)\<lparr>s_updatedAt := toISOString P (clock v 0)\<rparr>],
                    metadata := (metadata (data v))\<lparr>m_updatedAt := Some (toISOString P (clock v 1))\<rparr>\<rparr>)),
               clock := \<lambda>i. clock v (i + 2)\<rparr>)"
  using assms
  by (simp add: updateSecret_def no_updates_def assign_name_type_def assign_value_def
      assign_rest_def Let_def save_def)

theorem empty_update_witness:
  "isUnlocked sample_vault \<and>
   findIndex (\<lambda>s. s_id s = ''Zx9Yw8Vu7Ts6Rq5P'') (secrets (data sample_vault)) = Some 1 \<and>
   secrets (data (snd (updateSecret toy_platform ''Zx9Yw8Vu7Ts6Rq5P'' no_updates sample_vault))) =
     [sample_db, sample_token\<lparr>s_updatedAt := ''2023-11-14T22:13:21.000Z''\<rparr>, sample_ssh] \<and>
   m_updatedAt (metadata (data (snd (updateSecret toy_platform ''Zx9Yw8Vu7Ts6Rq5P'' no_updates sample_vault)))) =
     Some ''2023-11-14T22:13:22.000Z''"
proof -
  have t: "toISOString toy_platform (clock sample_vault 0) = ''2023-11-14T22:13:21.000Z''"
     "toISOString toy_platform (clock sample_vault (Suc 0)) = ''2023-11-14T22:13:22.000Z''"
    by (simp_all add: toy_platform_def sample_times_def sample_vault_def sample_clock_def)
  have s: "secrets (data sample_vault) = [sample_db, sample_token, sample_ssh]"
    by (simp add: sample_vault_def sample_data_def)
  note run = empty_update_bumps_timestamps [OF sample_unlocked sample_index_token, of toy_platform]
  have "secrets (data (snd (updateSecret toy_platform ''Zx9Yw8Vu7Ts6Rq5P'' no_updates sample_vault))) =
     [sample_db, sample_token\<lparr>s_updatedAt := ''2023-11-14T22:13:21.000Z''\<rparr>, sample_ssh]"
    by (simp add: run t s)
  moreover have "m_updatedAt (metadata (data (snd (updateSecret toy_platform ''Zx9Yw8Vu7Ts6Rq5P''
      no_updates sample_vault)))) = Some ''2023-11-14T22:13:22.000Z''"
    by (simp add: run t)
  ultimately show ?thesis
    using sample_unlocked sample_index_token by simp
qed

end
